theory Spec2Isabelle
  imports Complex_Main "HOL-Library.Product_Lexorder" "HOL-Library.Sublist" "HOL-Library.Multiset"
begin

section \<open>Data model of \<open>app.py\<close>\<close>

text \<open>
  A row of \<open>movies_data\<close> (columns movieId, title, genres) and a row of
  \<open>ratings_data\<close> (columns userId, movieId, rating). The rating column holds the
  integers 1..5 written by \<open>collect_initial_ratings\<close> and the floats appended by
  \<open>main\<close>; both are read here as real numbers (a finite float is a rational).
\<close>

record movie =
  movieId :: int
  title :: string
  genres :: string

record rating_row =
  userId :: int
  r_movieId :: int
  rating :: real

text \<open>
  The frame built by \<open>pivot_table\<close>: the row labels (userIds), the column labels
  (movieIds) and the cells, one list per row.
\<close>

record pivot =
  index :: "int list"
  columns :: "int list"
  cells :: "real list list"

text \<open>
  The attributes of a \<open>MovieRecommenderML\<close> object. \<open>rating_matrix\<close> and
  \<open>normalized_matrix\<close> are created by \<open>prepare_rating_matrix\<close>, which every reader
  of them calls first. The attribute \<open>scaler\<close> is written and never read; it is left out.
\<close>

record recommender =
  movies_data :: "movie list"
  ratings_data :: "rating_row list"
  rating_matrix :: pivot
  normalized_matrix :: "real list list"

text \<open>
  What the code leaves to scikit-learn, numpy and pandas and what these libraries compute
  in floating point or leave unspecified is a parameter of the model:
  \<^item> \<open>zscore col x\<close>: the entry \<open>StandardScaler.fit_transform\<close> writes for the value
    \<open>x\<close> of a column \<open>col\<close>;
  \<^item> \<open>cosine u v\<close>: the entry \<open>cosine_similarity\<close> computes for two rows;
  \<^item> \<open>argsort_tie xs i\<close>: the rank \<open>argsort\<close> gives position \<open>i\<close> among positions
    of equal value (numpy's default sort is not stable);
  \<^item> \<open>counts_tie xs v\<close>: the rank \<open>value_counts\<close> gives the value \<open>v\<close> among values
    of equal count.
  Every theorem below that mentions a \<open>numerics\<close> holds for all of them.
\<close>

record numerics =
  zscore :: "real list \<Rightarrow> real \<Rightarrow> real"
  cosine :: "real list \<Rightarrow> real list \<Rightarrow> real"
  argsort_tie :: "real list \<Rightarrow> nat \<Rightarrow> nat"
  counts_tie :: "int list \<Rightarrow> int \<Rightarrow> nat"

section \<open>Library operations\<close>

definition mean :: "real list \<Rightarrow> real" where
  "mean xs = sum_list xs / real (length xs)"

text \<open>
  \<open>pivot_table(index='userId', columns='movieId', values='rating', fill_value=0)\<close>:
  the labels are the sorted distinct keys, a cell aggregates the ratings of its
  (userId, movieId) group with the default \<open>aggfunc='mean'\<close>, and a cell with no row
  is filled with 0.
\<close>

definition cell_ratings :: "rating_row list \<Rightarrow> int \<Rightarrow> int \<Rightarrow> real list" where
  "cell_ratings rows u m = map rating (filter (\<lambda>r. userId r = u \<and> r_movieId r = m) rows)"

definition pivot_cell :: "rating_row list \<Rightarrow> int \<Rightarrow> int \<Rightarrow> real" where
  "pivot_cell rows u m =
     (if cell_ratings rows u m = [] then 0 else mean (cell_ratings rows u m))"

definition pivot_table :: "rating_row list \<Rightarrow> pivot" where
  "pivot_table rows =
     (let us = sort (remdups (map userId rows));
          ms = sort (remdups (map r_movieId rows))
      in \<lparr>index = us, columns = ms,
          cells = map (\<lambda>u. map (\<lambda>m. pivot_cell rows u m) ms) us\<rparr>)"

text \<open>\<open>DataFrame.empty\<close>: some axis has length 0.\<close>

definition pivot_empty :: "pivot \<Rightarrow> bool" where
  "pivot_empty M = (index M = [] \<or> columns M = [])"

text \<open>\<open>ndarray.size\<close>: the number of entries.\<close>

definition matrix_size :: "real list list \<Rightarrow> nat" where
  "matrix_size N = sum_list (map length N)"

text \<open>\<open>StandardScaler().fit_transform\<close>: every entry is standardised within its column.\<close>

definition fit_transform :: "numerics \<Rightarrow> real list list \<Rightarrow> real list list" where
  "fit_transform P X =
     map (\<lambda>row. map (\<lambda>j. zscore P (map (\<lambda>r. r ! j) X) (row ! j)) [0..<length row]) X"

text \<open>\<open>cosine_similarity(user_vector, normalized_matrix)[0]\<close>: one entry per row.\<close>

definition cosine_similarity :: "numerics \<Rightarrow> real list \<Rightarrow> real list list \<Rightarrow> real list" where
  "cosine_similarity P u N = map (cosine P u) N"

text \<open>
  \<open>ndarray.argsort()\<close>: the positions in ascending order of their values; positions of
  equal value come in the order \<open>argsort_tie\<close> ranks them.
\<close>

definition argsort :: "numerics \<Rightarrow> real list \<Rightarrow> nat list" where
  "argsort P xs = sort_key (\<lambda>i. (xs ! i, argsort_tie P xs i)) [0..<length xs]"

text \<open>Python's slice \<open>xs[a:b]\<close>: a negative bound counts from the end, both are clamped.\<close>

definition py_bound :: "nat \<Rightarrow> int \<Rightarrow> nat" where
  "py_bound n i = (if i < 0 then nat (max 0 (int n + i)) else min (nat i) n)"

definition py_slice :: "'a list \<Rightarrow> int \<Rightarrow> int \<Rightarrow> 'a list" where
  "py_slice xs a b = drop (py_bound (length xs) a) (take (py_bound (length xs) b) xs)"

text \<open>
  \<open>Index.get_loc\<close> on a label that is present (the caller checks membership first, so
  the KeyError of an absent label cannot happen there).
\<close>

definition get_loc :: "int list \<Rightarrow> int \<Rightarrow> nat" where
  "get_loc labels u = length (takeWhile (\<lambda>x. x \<noteq> u) labels)"

text \<open>
  \<open>pd.Series(xs).value_counts()\<close>: the distinct values with their number of occurrences,
  by descending count; values of equal count come in the order \<open>counts_tie\<close> ranks them.
\<close>

definition uniques :: "int list \<Rightarrow> int list" where
  "uniques xs = rev (remdups (rev xs))"

definition value_counts :: "numerics \<Rightarrow> int list \<Rightarrow> (int \<times> nat) list" where
  "value_counts P xs =
     sort_key (\<lambda>vc. (- int (snd vc), counts_tie P xs (fst vc)))
       (map (\<lambda>v. (v, count_list xs v)) (uniques xs))"

text \<open>\<open>Series.head(n)\<close>: the first \<open>n\<close> entries; for negative \<open>n\<close> all but the last \<open>-n\<close>.\<close>

definition head :: "int \<Rightarrow> 'a list \<Rightarrow> 'a list" where
  "head n xs = (if 0 \<le> n then take (nat n) xs else take (length xs - nat (- n)) xs)"

section \<open>The recommender\<close>

text \<open>
  \<open>MovieRecommenderML.__init__\<close>. The attributes \<open>rating_matrix\<close> and
  \<open>normalized_matrix\<close>, which do not exist yet, are empty here.
\<close>

definition sample_movies :: "movie list" where
  "sample_movies =
     [\<lparr>movieId = 1, title = ''Inception'', genres = ''Action|Sci-Fi''\<rparr>,
      \<lparr>movieId = 2, title = ''The Matrix'', genres = ''Sci-Fi|Action''\<rparr>,
      \<lparr>movieId = 3, title = ''Interstellar'', genres = ''Sci-Fi|Drama''\<rparr>,
      \<lparr>movieId = 4, title = ''Dark Knight'', genres = ''Action|Drama''\<rparr>,
      \<lparr>movieId = 5, title = ''Pulp Fiction'', genres = ''Crime|Drama''\<rparr>]"

definition init :: recommender where
  "init = \<lparr>movies_data = sample_movies, ratings_data = [],
           rating_matrix = \<lparr>index = [], columns = [], cells = []\<rparr>,
           normalized_matrix = []\<rparr>"

text \<open>\<open>prepare_rating_matrix\<close>.\<close>

definition prepare_rating_matrix :: "numerics \<Rightarrow> recommender \<Rightarrow> recommender" where
  "prepare_rating_matrix P s =
     (let M = pivot_table (ratings_data s)
      in s\<lparr>rating_matrix := M,
           normalized_matrix := (if \<not> pivot_empty M then fit_transform P (cells M) else [])\<rparr>)"

text \<open>\<open>find_similar_users\<close>: the list returned and the object after the call.\<close>

definition find_similar_users ::
  "numerics \<Rightarrow> recommender \<Rightarrow> int \<Rightarrow> int \<Rightarrow> int list \<times> recommender" where
  "find_similar_users P s user_id top_n =
     (if length (ratings_data s) < 5 then ([], s)
      else
        let s1 = prepare_rating_matrix P s in
        if matrix_size (normalized_matrix s1) = 0 \<or> user_id \<notin> set (index (rating_matrix s1))
        then ([], s1)
        else
          let user_index = get_loc (index (rating_matrix s1)) user_id;
              user_vector = normalized_matrix s1 ! user_index;
              similarities = cosine_similarity P user_vector (normalized_matrix s1);
              similar_indices = py_slice (rev (argsort P similarities)) 1 (top_n + 1)
          in (map (\<lambda>idx. index (rating_matrix s1) ! idx) similar_indices, s1))"

text \<open>
  \<open>recommend_movies\<close>, in the steps of the source: the movies the target user has a row
  for, the candidates collected from the similar users, the fallback, the selection.
\<close>

definition user_rated_movies :: "recommender \<Rightarrow> int \<Rightarrow> int set" where
  "user_rated_movies s user_id =
     set (map r_movieId (filter (\<lambda>r. userId r = user_id) (ratings_data s)))"

definition similar_user_ratings :: "recommender \<Rightarrow> int set \<Rightarrow> int \<Rightarrow> int list" where
  "similar_user_ratings s rated similar_user =
     map r_movieId
       (filter (\<lambda>r. userId r = similar_user \<and> rating r \<ge> 4 \<and> r_movieId r \<notin> rated)
          (ratings_data s))"

definition collect_candidates :: "recommender \<Rightarrow> int set \<Rightarrow> int list \<Rightarrow> int list" where
  "collect_candidates s rated similar_users =
     concat (map (similar_user_ratings s rated) similar_users)"

text \<open>
  \<open>list(set(movies_data['movieId']) - user_rated_movies)\<close>: the members of the difference,
  each once. The iteration order of a Python set is not specified; it does not reach the
  result, because all counts are 1 and \<open>counts_tie\<close> orders the values.
\<close>

definition unseen_movies :: "recommender \<Rightarrow> int set \<Rightarrow> int list" where
  "unseen_movies s rated = remdups (filter (\<lambda>m. m \<notin> rated) (map movieId (movies_data s)))"

definition top_movie_ids :: "numerics \<Rightarrow> int \<Rightarrow> int list \<Rightarrow> int list" where
  "top_movie_ids P n candidate_movies = map fst (head n (value_counts P candidate_movies))"

definition recommend_movies ::
  "numerics \<Rightarrow> recommender \<Rightarrow> int \<Rightarrow> int \<Rightarrow> movie list \<times> recommender" where
  "recommend_movies P s user_id n_recommendations =
     (let s1 = prepare_rating_matrix P s;
          rated = user_rated_movies s1 user_id
      in if rated = {} then ([], s1)
         else
           let (similar_users, s2) = find_similar_users P s1 user_id 3;
               candidate_movies = collect_candidates s2 rated similar_users;
               candidate_movies' =
                 (if candidate_movies = [] then unseen_movies s2 rated else candidate_movies)
           in if candidate_movies' = [] then ([], s2)
              else
                let top = top_movie_ids P n_recommendations candidate_movies'
                in (filter (\<lambda>m. movieId m \<in> set top) (movies_data s2), s2))"

section \<open>The numerics in exact arithmetic\<close>

text \<open>
  The formulas of scikit-learn over the reals: \<open>StandardScaler\<close> subtracts the column's
  mean and divides by its population standard deviation, a zero deviation being replaced
  by 1; \<open>cosine_similarity\<close> divides each row by its Euclidean norm, a zero row being
  left as it is, and takes the dot product. Ties keep the order of the input.
\<close>

definition std :: "real list \<Rightarrow> real" where
  "std xs = sqrt (mean (map (\<lambda>x. (x - mean xs) * (x - mean xs)) xs))"

definition sk_zscore :: "real list \<Rightarrow> real \<Rightarrow> real" where
  "sk_zscore col x = (x - mean col) / (if std col = 0 then 1 else std col)"

definition l2_norm :: "real list \<Rightarrow> real" where
  "l2_norm v = sqrt (sum_list (map (\<lambda>x. x * x) v))"

definition normalize :: "real list \<Rightarrow> real list" where
  "normalize v = (if l2_norm v = 0 then v else map (\<lambda>x. x / l2_norm v) v)"

definition sk_cosine :: "real list \<Rightarrow> real list \<Rightarrow> real" where
  "sk_cosine u v = sum_list (map2 (*) (normalize u) (normalize v))"

definition exact_numerics :: numerics where
  "exact_numerics =
     \<lparr>zscore = sk_zscore, cosine = sk_cosine,
      argsort_tie = (\<lambda>xs i. 0), counts_tie = (\<lambda>xs v. 0)\<rparr>"

section \<open>The console driver\<close>

text \<open>
  A line typed at the console, by what Python makes of it: \<open>IntLine i\<close> is text that
  \<open>int\<close> parses to \<open>i\<close> (and \<open>float\<close> to the same number), \<open>FloatLine x\<close> is text
  that only \<open>float\<close> parses, \<open>TextLine t\<close> is any other text, on which both raise
  ValueError. \<open>input\<close> on an exhausted console raises EOFError.
\<close>

datatype line = IntLine int | FloatLine real | TextLine string

fun py_int :: "line \<Rightarrow> int option" where
  "py_int (IntLine i) = Some i"
| "py_int (FloatLine x) = None"
| "py_int (TextLine t) = None"

fun py_float :: "line \<Rightarrow> real option" where
  "py_float (IntLine i) = Some (real_of_int i)"
| "py_float (FloatLine x) = Some x"
| "py_float (TextLine t) = None"

definition lower :: "string \<Rightarrow> string" where
  "lower t =
     map (\<lambda>c. if c \<in> set ''ABCDEFGHIJKLMNOPQRSTUVWXYZ''
              then char_of (of_char c + (32::nat)) else c) t"

text \<open>\<open>input(...).lower() == 'yes'\<close>.\<close>

fun is_yes :: "line \<Rightarrow> bool" where
  "is_yes (TextLine t) = (lower t = ''yes'')"
| "is_yes (IntLine i) = False"
| "is_yes (FloatLine x) = False"

text \<open>
  The inner \<open>while True\<close> of \<open>collect_initial_ratings\<close>, for one movie: lines are read
  until one is an integer from 0 to 5. \<open>None\<close> is the EOFError of \<open>input\<close>, which the
  loop does not catch.
\<close>

fun read_rating :: "line list \<Rightarrow> (int \<times> line list) option" where
  "read_rating [] = None"
| "read_rating (l # ls) =
     (case py_int l of
        None \<Rightarrow> read_rating ls
      | Some r \<Rightarrow> if 0 \<le> r \<and> r \<le> 5 then Some (r, ls) else read_rating ls)"

text \<open>The \<open>for\<close> loop over the catalog, with \<open>user_movie_ratings\<close> as accumulator.\<close>

fun collect_loop ::
  "int \<Rightarrow> movie list \<Rightarrow> line list \<Rightarrow> rating_row list \<Rightarrow> (rating_row list \<times> line list) option" where
  "collect_loop user_id [] ls user_movie_ratings = Some (user_movie_ratings, ls)"
| "collect_loop user_id (movie # movies) ls user_movie_ratings =
     (case read_rating ls of
        None \<Rightarrow> None
      | Some (r, ls') \<Rightarrow>
          collect_loop user_id movies ls'
            (if r > 0
             then user_movie_ratings @
                    [\<lparr>userId = user_id, r_movieId = movieId movie, rating = real_of_int r\<rparr>]
             else user_movie_ratings))"

text \<open>
  \<open>collect_initial_ratings\<close>: the frame returned, the object with the rows appended, and
  the rest of the console. The store is written after the loop only, so an EOFError
  leaves it as it was.
\<close>

definition collect_initial_ratings ::
  "recommender \<Rightarrow> int \<Rightarrow> line list \<Rightarrow> (rating_row list \<times> recommender \<times> line list) option" where
  "collect_initial_ratings s user_id ls =
     (case collect_loop user_id (movies_data s) ls [] of
        None \<Rightarrow> None
      | Some (user_ratings_df, ls') \<Rightarrow>
          Some (user_ratings_df, s\<lparr>ratings_data := ratings_data s @ user_ratings_df\<rparr>, ls'))"

text \<open>
  One round of the \<open>while True\<close> of \<open>main\<close>. \<open>Again\<close>: the loop goes on, after
  "Continue? yes" or after an exception the handler printed. \<open>Stop\<close>: the \<open>break\<close>.
  \<open>Diverge\<close>: the console is exhausted; every later \<open>input\<close> raises EOFError into the
  handler and the loop never ends. Printing is not modelled.
\<close>

datatype outcome = Diverge | Again recommender "line list" | Stop recommender

definition continue_choice :: "recommender \<Rightarrow> line list \<Rightarrow> outcome" where
  "continue_choice s ls =
     (case ls of
        [] \<Rightarrow> Diverge
      | l # ls' \<Rightarrow> if is_yes l then Again s ls' else Stop s)"

definition rate_another :: "recommender \<Rightarrow> int \<Rightarrow> line list \<Rightarrow> outcome" where
  "rate_another s user_id ls =
     (case ls of
        [] \<Rightarrow> Diverge
      | l # ls1 \<Rightarrow>
          (case py_int l of
             None \<Rightarrow> Again s ls1
           | Some movie_id \<Rightarrow>
               (case ls1 of
                  [] \<Rightarrow> Diverge
                | l' # ls2 \<Rightarrow>
                    (case py_float l' of
                       None \<Rightarrow> Again s ls2
                     | Some r \<Rightarrow>
                         continue_choice
                           (s\<lparr>ratings_data := ratings_data s @
                                [\<lparr>userId = user_id, r_movieId = movie_id, rating = r\<rparr>]\<rparr>)
                           ls2))))"

definition main_round :: "numerics \<Rightarrow> recommender \<Rightarrow> line list \<Rightarrow> outcome" where
  "main_round P s ls =
     (case ls of
        [] \<Rightarrow> Diverge
      | l # ls0 \<Rightarrow>
          (case py_int l of
             None \<Rightarrow> Again s ls0
           | Some user_id \<Rightarrow>
               (case collect_initial_ratings s user_id ls0 of
                  None \<Rightarrow> Diverge
                | Some (initial_ratings, s1, ls1) \<Rightarrow>
                    let (recommendations, s2) = recommend_movies P s1 user_id 3 in
                    (case ls1 of
                       [] \<Rightarrow> Diverge
                     | rate_movie # ls2 \<Rightarrow>
                         if is_yes rate_movie then rate_another s2 user_id ls2
                         else continue_choice s2 ls2))))"

text \<open>
  \<open>main\<close>: the rounds from the object \<open>__init__\<close> builds. The result is the object at
  the \<open>break\<close>, or \<open>None\<close> when the loop never ends.
\<close>

function main_loop :: "numerics \<Rightarrow> recommender \<Rightarrow> line list \<Rightarrow> recommender option" where
  "main_loop P s ls =
     (case main_round P s ls of
        Diverge \<Rightarrow> None
      | Again s' ls' \<Rightarrow> main_loop P s' ls'
      | Stop s' \<Rightarrow> Some s')"
  by pat_completeness auto

definition main :: "numerics \<Rightarrow> line list \<Rightarrow> recommender option" where
  "main P console = main_loop P init console"

section \<open>Derived notions used in the statements\<close>

text \<open>
  The candidate list the selection is made from: the movies collected from the similar
  users or, when there are none, the fallback.
\<close>

definition selection :: "numerics \<Rightarrow> recommender \<Rightarrow> int \<Rightarrow> int list" where
  "selection P s user_id =
     (let rated = user_rated_movies s user_id;
          candidate_movies = collect_candidates s rated (fst (find_similar_users P s user_id 3))
      in if candidate_movies = [] then unseen_movies s rated else candidate_movies)"

text \<open>
  The similarities \<open>find_similar_users\<close> computes for a target user, one per row of the
  Rating Matrix, and the positions of the rows by descending similarity.
\<close>

definition similarities :: "numerics \<Rightarrow> rating_row list \<Rightarrow> int \<Rightarrow> real list" where
  "similarities P rows user_id =
     (let M = pivot_table rows; N = fit_transform P (cells M)
      in cosine_similarity P (N ! get_loc (index M) user_id) N)"


text \<open>
  The number of similar users who hold a rating of at least 4 for a movie, and the
  monotonicity of the selection in that number, in the words of the specification: of
  two candidate movies, the one rated at least 4 by strictly more similar users is
  selected whenever the other one is.
\<close>

definition supporters :: "numerics \<Rightarrow> recommender \<Rightarrow> int \<Rightarrow> int \<Rightarrow> nat" where
  "supporters P s user_id m =
     length (filter (\<lambda>v. \<exists>r \<in> set (ratings_data s). userId r = v \<and> r_movieId r = m \<and> rating r \<ge> 4)
              (fst (find_similar_users P s user_id 3)))"

definition monotone_in_supporters :: "numerics \<Rightarrow> recommender \<Rightarrow> int \<Rightarrow> int \<Rightarrow> bool" where
  "monotone_in_supporters P s user_id n =
     (let candidates = collect_candidates s (user_rated_movies s user_id)
                         (fst (find_similar_users P s user_id 3));
          top = top_movie_ids P n (selection P s user_id)
      in \<forall>a \<in> set candidates. \<forall>b \<in> set candidates.
           supporters P s user_id b < supporters P s user_id a \<longrightarrow>
           b \<in> set top \<longrightarrow> a \<in> set top)"

section \<open>Concrete stores\<close>

abbreviation Row :: "int \<Rightarrow> int \<Rightarrow> real \<Rightarrow> rating_row" where
  "Row u m r \<equiv> \<lparr>userId = u, r_movieId = m, rating = r\<rparr>"

text \<open>User 1 has rated movie 1 and nobody else has rated anything.\<close>

definition one_rating :: recommender where
  "one_rating = init\<lparr>ratings_data := [Row 1 1 5]\<rparr>"


text \<open>
  Six users, no pair (userId, movieId) rated twice. User 1 has rated movies 1 and 2
  only. Every column of the Rating Matrix takes two values, three times each, so that
  every standard deviation and every norm is a whole number and the floating-point
  computation is exact.
\<close>

definition demo :: recommender where
  "demo = init\<lparr>ratings_data :=
     [Row 1 1 5, Row 1 2 5,
      Row 2 1 5, Row 2 2 5, Row 2 4 4, Row 2 5 4,
      Row 3 1 5, Row 3 2 1, Row 3 5 4,
      Row 4 1 1, Row 4 2 5,
      Row 5 1 1, Row 5 2 1, Row 5 4 4, Row 5 5 4,
      Row 6 1 1, Row 6 2 1, Row 6 4 4]\<rparr>"

text \<open>The same store after user 2 has rated movie 4 twice more, with 4 again.\<close>

definition rerated :: recommender where
  "rerated = demo\<lparr>ratings_data := ratings_data demo @ [Row 2 4 4, Row 2 4 4]\<rparr>"

text \<open>
  A console session: user 1 answers 0 for each of the five movies, asks to rate another
  movie, and enters movie 1 with the rating 7.
\<close>

definition unchecked_session :: "line list" where
  "unchecked_session =
     [IntLine 1, IntLine 0, IntLine 0, IntLine 0, IntLine 0, IntLine 0,
      TextLine ''yes'', IntLine 1, IntLine 7, TextLine ''no'']"

section \<open>State left alone, results in terms of the store\<close>

lemma prepare_ratings_data [simp]:
  "ratings_data (prepare_rating_matrix P s) = ratings_data s"
  by (simp add: prepare_rating_matrix_def Let_def)

lemma prepare_movies_data [simp]:
  "movies_data (prepare_rating_matrix P s) = movies_data s"
  by (simp add: prepare_rating_matrix_def Let_def)

lemma prepare_rating_matrix_pivot [simp]:
  "rating_matrix (prepare_rating_matrix P s) = pivot_table (ratings_data s)"
  by (simp add: prepare_rating_matrix_def Let_def)

lemma prepare_normalized_matrix:
  "normalized_matrix (prepare_rating_matrix P s) =
     (if pivot_empty (pivot_table (ratings_data s)) then []
      else fit_transform P (cells (pivot_table (ratings_data s))))"
  by (simp add: prepare_rating_matrix_def Let_def)

lemma find_similar_users_ratings_data [simp]:
  "ratings_data (snd (find_similar_users P s u k)) = ratings_data s"
  by (simp add: find_similar_users_def Let_def)

lemma find_similar_users_movies_data [simp]:
  "movies_data (snd (find_similar_users P s u k)) = movies_data s"
  by (simp add: find_similar_users_def Let_def)

lemma user_rated_movies_cong:
  "ratings_data s = ratings_data s' \<Longrightarrow> user_rated_movies s u = user_rated_movies s' u"
  by (simp add: user_rated_movies_def)

lemma collect_candidates_cong:
  "ratings_data s = ratings_data s' \<Longrightarrow>
   collect_candidates s rated us = collect_candidates s' rated us"
  by (simp add: collect_candidates_def similar_user_ratings_def [abs_def])

lemma unseen_movies_cong:
  "movies_data s = movies_data s' \<Longrightarrow> unseen_movies s rated = unseen_movies s' rated"
  by (simp add: unseen_movies_def)

lemma find_similar_users_cong:
  "ratings_data s = ratings_data s' \<Longrightarrow>
   fst (find_similar_users P s u k) = fst (find_similar_users P s' u k)"
  by (simp add: find_similar_users_def Let_def prepare_normalized_matrix)

lemma recommend_movies_result:
  "fst (recommend_movies P s u n) =
     (if user_rated_movies s u = {} \<or> selection P s u = [] then []
      else filter (\<lambda>m. movieId m \<in> set (top_movie_ids P n (selection P s u))) (movies_data s))"
proof -
  let ?s1 = "prepare_rating_matrix P s"
  let ?r = "find_similar_users P ?s1 u 3"
  have r: "user_rated_movies ?s1 u = user_rated_movies s u"
    by (rule user_rated_movies_cong) simp
  have f: "fst ?r = fst (find_similar_users P s u 3)"
    by (rule find_similar_users_cong) simp
  have c: "collect_candidates (snd ?r) rated us = collect_candidates s rated us" for rated us
    by (rule collect_candidates_cong) simp
  have un: "unseen_movies (snd ?r) rated = unseen_movies s rated" for rated
    by (rule unseen_movies_cong) simp
  show ?thesis
    by (simp add: recommend_movies_def selection_def Let_def split_beta r f c un)
qed

lemma recommend_movies_state:
  "ratings_data (snd (recommend_movies P s u n)) = ratings_data s \<and>
   movies_data (snd (recommend_movies P s u n)) = movies_data s"
  by (simp add: recommend_movies_def Let_def split_beta)

section \<open>What the selection is made of\<close>

lemma find_similar_users_few:
  "length (ratings_data s) < 5 \<Longrightarrow> find_similar_users P s u k = ([], s)"
  by (simp add: find_similar_users_def)

lemma value_counts_set: "fst ` set (value_counts P xs) = set xs"
  by (auto simp: value_counts_def uniques_def image_iff)

lemma set_head_subset: "set (head n xs) \<subseteq> set xs"
  by (auto simp: head_def dest: in_set_takeD)

lemma top_movie_ids_subset: "set (top_movie_ids P n xs) \<subseteq> set xs"
proof -
  have "set (top_movie_ids P n xs) \<subseteq> fst ` set (value_counts P xs)"
    using set_head_subset [of n "value_counts P xs"] by (auto simp: top_movie_ids_def)
  then show ?thesis by (simp add: value_counts_set)
qed

lemma collect_candidates_unrated:
  "set (collect_candidates s rated us) \<inter> rated = {}"
  by (auto simp: collect_candidates_def similar_user_ratings_def)

lemma unseen_movies_set:
  "set (unseen_movies s rated) = movieId ` set (movies_data s) - rated"
  by (auto simp: unseen_movies_def)

lemma selection_unrated: "set (selection P s u) \<inter> user_rated_movies s u = {}"
  using collect_candidates_unrated [of s "user_rated_movies s u"]
  by (auto simp: selection_def Let_def unseen_movies_set)

text \<open>
  The run on \<open>one_rating\<close>: fewer than 5 rows, so no similar users and no candidates;
  the fallback offers movies 2 to 5 and the first three are kept.
\<close>

lemma one_rating_result:
  "fst (recommend_movies exact_numerics one_rating 1 3) =
     [\<lparr>movieId = 2, title = ''The Matrix'', genres = ''Sci-Fi|Action''\<rparr>,
      \<lparr>movieId = 3, title = ''Interstellar'', genres = ''Sci-Fi|Drama''\<rparr>,
      \<lparr>movieId = 4, title = ''Dark Knight'', genres = ''Action|Drama''\<rparr>]"
proof -
  have r: "user_rated_movies one_rating 1 = {1}"
    by (simp add: user_rated_movies_def one_rating_def init_def)
  have f: "find_similar_users exact_numerics one_rating 1 3 = ([], one_rating)"
    by (rule find_similar_users_few) (simp add: one_rating_def init_def)
  have s: "selection exact_numerics one_rating 1 = [2, 3, 4, 5]"
    by (simp add: selection_def r f collect_candidates_def unseen_movies_def)
       (simp add: one_rating_def init_def sample_movies_def)
  have t: "top_movie_ids exact_numerics 3 [2, 3, 4, 5] = [2, 3, 4]"
    by (simp add: top_movie_ids_def value_counts_def uniques_def head_def exact_numerics_def)
  show ?thesis
    by (simp add: recommend_movies_result r s t) (simp add: one_rating_def init_def sample_movies_def)
qed

section \<open>Rated movies are never recommended\<close>

text \<open>
  C1. A movie record returned by \<open>recommend_movies\<close> never carries a movieId for which
  the target user has a row in the Rating Store. The code takes every row of the user as
  "rated", whatever its rating, so the movies rated above 0 are excluded in particular:
  the candidates of the similar users are filtered against that set and the fallback is
  the catalog minus that set.
\<close>

theorem recommend_movies_excludes_rated:
  assumes "m \<in> set (fst (recommend_movies P s u n))"
  shows "\<not> (\<exists>r \<in> set (ratings_data s). userId r = u \<and> r_movieId r = movieId m)"
proof
  assume "\<exists>r \<in> set (ratings_data s). userId r = u \<and> r_movieId r = movieId m"
  then have rated: "movieId m \<in> user_rated_movies s u"
    by (force simp: user_rated_movies_def image_iff)
  from assms have "movieId m \<in> set (top_movie_ids P n (selection P s u))"
    by (auto simp: recommend_movies_result split: if_splits)
  then have "movieId m \<in> set (selection P s u)"
    using top_movie_ids_subset by blast
  with rated selection_unrated [of P s u] show False by blast
qed

theorem recommend_movies_excludes_rated_witness:
  "\<lparr>movieId = 2, title = ''The Matrix'', genres = ''Sci-Fi|Action''\<rparr>
     \<in> set (fst (recommend_movies exact_numerics one_rating 1 3)) \<and>
   \<not> (\<exists>r \<in> set (ratings_data one_rating). userId r = 1 \<and> r_movieId r = 2)"
  using recommend_movies_excludes_rated
    [of "\<lparr>movieId = 2, title = ''The Matrix'', genres = ''Sci-Fi|Action''\<rparr>"
        exact_numerics one_rating 1 3]
  by (simp add: one_rating_result)

section \<open>A user without ratings\<close>



section \<open>The store and the catalog are only read\<close>

text \<open>
  C9. After \<open>recommend_movies\<close>, for every input, the Rating Store \<open>ratings_data\<close> and the
  Catalog \<open>movies_data\<close> are what they were before the call. (The call does rebuild
  \<open>rating_matrix\<close> and \<open>normalized_matrix\<close>.)
\<close>

theorem recommend_movies_reads_only:
  "ratings_data (snd (recommend_movies P s u n)) = ratings_data s \<and>
   movies_data (snd (recommend_movies P s u n)) = movies_data s"
  by (rule recommend_movies_state)

section \<open>The similarity engine fails soft\<close>



section \<open>Duplicate rows in the pivot\<close>






section \<open>The fallback\<close>











section \<open>The run on the store \<open>demo\<close>\<close>

text \<open>
  The Rating Matrix, its standardised form, the similarities of user 1 to users 1 to 6,
  their ascending order, the similar users, the candidates with their counts (movie 5
  twice, movie 4 once) and the result.
\<close>

lemma demo_pivot:
  "pivot_table (ratings_data demo) =
     \<lparr>index = [1, 2, 3, 4, 5, 6], columns = [1, 2, 4, 5],
      cells = [[5, 5, 0, 0], [5, 5, 4, 4], [5, 1, 0, 4],
               [1, 5, 0, 0], [1, 1, 4, 4], [1, 1, 4, 0]]\<rparr>"
  by (simp add: demo_def pivot_table_def Let_def pivot_cell_def cell_ratings_def mean_def)

lemma sqrt_square: "0 \<le> y \<Longrightarrow> x = y * y \<Longrightarrow> sqrt x = y"
  by simp

lemma demo_std:
  "std [5, 5, 5, 1, 1, 1] = 2" "std [5, 5, 1, 5, 1, 1] = 2"
  "std [0, 4, 0, 0, 4, 4] = 2" "std [0, 4, 4, 0, 4, 0] = 2"
  unfolding std_def by (rule sqrt_square; simp add: mean_def)+

lemma demo_normalized:
  "fit_transform exact_numerics
     [[5, 5, 0, 0], [5, 5, 4, 4], [5, 1, 0, 4], [1, 5, 0, 0], [1, 1, 4, 4], [1, 1, 4, 0]] =
     [[1, 1, -1, -1], [1, 1, 1, 1], [1, -1, -1, 1],
      [-1, 1, -1, -1], [-1, -1, 1, 1], [-1, -1, 1, -1]]"
  by (simp add: fit_transform_def exact_numerics_def sk_zscore_def demo_std
        upt_rec [of 0] upt_rec [of 1] upt_rec [of 2] upt_rec [of 3])
     (simp add: mean_def)

lemma demo_norms:
  "l2_norm [1, 1, -1, -1] = 2" "l2_norm [1, 1, 1, 1] = 2" "l2_norm [1, -1, -1, 1] = 2"
  "l2_norm [-1, 1, -1, -1] = 2" "l2_norm [-1, -1, 1, 1] = 2" "l2_norm [-1, -1, 1, -1] = 2"
  by (simp_all add: l2_norm_def)

lemma demo_similarities:
  "cosine_similarity exact_numerics [1, 1, -1, -1]
     [[1, 1, -1, -1], [1, 1, 1, 1], [1, -1, -1, 1],
      [-1, 1, -1, -1], [-1, -1, 1, 1], [-1, -1, 1, -1]] = [1, 0, 0, 1 / 2, - 1, - (1 / 2)]"
  by (simp add: cosine_similarity_def exact_numerics_def sk_cosine_def normalize_def demo_norms)

lemma demo_argsort:
  "argsort exact_numerics [1, 0, 0, 1 / 2, - 1, - (1 / 2)] = [4, 5, 1, 2, 3, 0]"
  by (simp add: argsort_def exact_numerics_def
        upt_rec [of 0] upt_rec [of 1] upt_rec [of 2] upt_rec [of 3] upt_rec [of 4] upt_rec [of 5])

lemma demo_similar_users:
  "fst (find_similar_users exact_numerics demo 1 3) = [4, 3, 2]"
proof -
  have len: "\<not> length (ratings_data demo) < 5"
    by (simp add: demo_def)
  show ?thesis
    by (simp add: find_similar_users_def len prepare_normalized_matrix demo_pivot pivot_empty_def
          matrix_size_def demo_normalized get_loc_def demo_similarities demo_argsort
          py_slice_def py_bound_def Let_def)
qed

lemma demo_rated: "user_rated_movies demo 1 = {1, 2}"
  by (simp add: user_rated_movies_def demo_def)

lemma demo_candidates:
  "collect_candidates demo {1, 2} [4, 3, 2] = [5, 4, 5]"
  by (simp add: collect_candidates_def similar_user_ratings_def demo_def)

lemma demo_selection: "selection exact_numerics demo 1 = [5, 4, 5]"
  by (simp add: selection_def demo_rated demo_similar_users demo_candidates)

lemma demo_top:
  "top_movie_ids exact_numerics 3 [5, 4, 5] = [5, 4]"
  "top_movie_ids exact_numerics 1 [5, 4, 5] = [5]"
  by (simp_all add: top_movie_ids_def value_counts_def uniques_def head_def exact_numerics_def)

lemma demo_result:
  "fst (recommend_movies exact_numerics demo 1 3) =
     [\<lparr>movieId = 4, title = ''Dark Knight'', genres = ''Action|Drama''\<rparr>,
      \<lparr>movieId = 5, title = ''Pulp Fiction'', genres = ''Crime|Drama''\<rparr>]"
  by (simp add: recommend_movies_result demo_rated demo_selection demo_top)
     (simp add: demo_def init_def sample_movies_def)

section \<open>The rounds of \<open>main\<close>\<close>

lemma read_rating_shorter:
  "read_rating ls = Some (r, ls') \<Longrightarrow> length ls' < length ls"
  by (induction ls) (auto split: option.splits if_splits)

lemma read_rating_range:
  "read_rating ls = Some (r, ls') \<Longrightarrow> 0 \<le> r \<and> r \<le> 5"
  by (induction ls) (auto split: option.splits if_splits)

lemma collect_loop_shorter:
  "collect_loop u ms ls acc = Some (rows, ls') \<Longrightarrow> length ls' \<le> length ls"
proof (induction ms arbitrary: ls acc)
  case Nil
  then show ?case by simp
next
  case (Cons m ms)
  then show ?case
    by (fastforce split: option.splits dest: read_rating_shorter)
qed

lemma collect_initial_ratings_shorter:
  "collect_initial_ratings s u ls = Some (df, s', ls') \<Longrightarrow> length ls' \<le> length ls"
  by (auto simp: collect_initial_ratings_def split: option.splits dest: collect_loop_shorter)

lemma continue_choice_shorter:
  "continue_choice s ls = Again s' ls' \<Longrightarrow> length ls' < length ls"
  by (auto simp: continue_choice_def split: list.splits if_splits)

lemma rate_another_shorter:
  "rate_another s u ls = Again s' ls' \<Longrightarrow> length ls' < length ls"
  by (auto simp: rate_another_def split: list.splits option.splits
           dest!: continue_choice_shorter)

lemma main_round_shorter:
  "main_round P s ls = Again s' ls' \<Longrightarrow> length ls' < length ls"
  by (auto simp: main_round_def split_beta Let_def
           split: list.splits option.splits if_splits
           dest!: continue_choice_shorter rate_another_shorter collect_initial_ratings_shorter)

text \<open>
  Every round of \<open>main\<close> that goes on has consumed a line of the console: the loop
  of \<open>main_loop\<close> is well founded on the lines left.
\<close>

termination main_loop
  by (relation "measure (\<lambda>(P, s, ls). length ls)") (auto dest: main_round_shorter)

section \<open>The range of the stored ratings\<close>

text \<open>
  The initial collection keeps the range: it appends only ratings from 1 to 5, and an
  answer of 0 appends nothing.
\<close>

lemma collect_loop_range:
  "collect_loop u ms ls acc = Some (rows, ls') \<Longrightarrow>
   \<forall>r \<in> set acc. 0 < rating r \<and> rating r \<le> 5 \<Longrightarrow>
   \<forall>r \<in> set rows. 0 < rating r \<and> rating r \<le> 5"
proof (induction ms arbitrary: ls acc)
  case Nil
  then show ?case by simp
next
  case (Cons m ms)
  from Cons.prems(1) obtain r ls1 where
    rd: "read_rating ls = Some (r, ls1)" and
    rest: "collect_loop u ms ls1
             (if r > 0 then acc @ [\<lparr>userId = u, r_movieId = movieId m, rating = real_of_int r\<rparr>]
              else acc) = Some (rows, ls')"
    by (auto split: option.splits)
  have "r \<le> 5" using read_rating_range [OF rd] by simp
  then have "\<forall>x \<in> set (if r > 0 then acc @ [\<lparr>userId = u, r_movieId = movieId m, rating = real_of_int r\<rparr>]
              else acc). 0 < rating x \<and> rating x \<le> 5"
    using Cons.prems(2) by auto
  with Cons.IH [OF rest] show ?case by blast
qed

lemma collect_initial_ratings_range:
  assumes "collect_initial_ratings s u ls = Some (df, s', ls')"
    and "\<forall>r \<in> set (ratings_data s). 0 < rating r \<and> rating r \<le> 5"
  shows "\<forall>r \<in> set (ratings_data s'). 0 < rating r \<and> rating r \<le> 5"
proof -
  from assms(1) have c: "collect_loop u (movies_data s) ls [] = Some (df, ls')"
    and s': "ratings_data s' = ratings_data s @ df"
    by (auto simp: collect_initial_ratings_def split: option.splits)
  have "\<forall>r \<in> set df. 0 < rating r \<and> rating r \<le> 5"
    using collect_loop_range [OF c] by simp
  with assms(2) s' show ?thesis by auto
qed

lemma lower_yes_no: "lower ''yes'' = ''yes''" "lower ''no'' = ''no''"
  by (simp_all add: lower_def)

lemma collect_all_zero:
  "collect_initial_ratings init 1 (IntLine 0 # IntLine 0 # IntLine 0 # IntLine 0 # IntLine 0 # ls)
     = Some ([], init, ls)"
  by (simp add: collect_initial_ratings_def init_def sample_movies_def)

text \<open>
  C8. The claim is that every rating in the Rating Store lies in (0,5] in every reachable
  state of the session. The five answers 0 of \<open>unchecked_session\<close> store nothing, as the
  claim says; but the rating entered after "Would you like to rate another movie?" is
  appended as it was typed, and the session ends with the rating 7 in the store.
\<close>

theorem main_stores_unchecked_rating:
  "map_option ratings_data (main exact_numerics unchecked_session) = Some [Row 1 1 7]"
proof -
  obtain recs s2 where r: "recommend_movies exact_numerics init 1 3 = (recs, s2)"
    by (cases "recommend_movies exact_numerics init 1 3")
  have "ratings_data s2 = ratings_data init"
    using recommend_movies_state [of exact_numerics init 1 3] by (simp add: r)
  then have s2: "ratings_data s2 = []"
    by (simp add: init_def)
  have "main_round exact_numerics init unchecked_session =
          Stop (s2\<lparr>ratings_data := ratings_data s2 @ [Row 1 1 7]\<rparr>)"
    by (simp add: main_round_def unchecked_session_def collect_all_zero r lower_yes_no
          rate_another_def continue_choice_def)
  then show ?thesis by (simp add: main_def s2)
qed

section \<open>The order of the returned rows\<close>

lemma sorted_wrt_filter_map:
  "sorted_wrt (<) (map f xs) \<Longrightarrow> sorted_wrt (<) (map f (filter Q xs))"
  by (induction xs) auto

text \<open>
  C10. The rows \<open>recommend_movies\<close> returns are rows of \<open>movies_data\<close> in the order of
  \<open>movies_data\<close>; where \<open>movies_data\<close> is in ascending order of movieId, as the catalog of
  \<open>__init__\<close> is, so is the result. The counts select the movieIds and have no part in
  the order: on \<open>demo\<close> movie 5 has the higher count and movie 4 comes first.
\<close>

theorem recommend_movies_catalog_order:
  "subseq (fst (recommend_movies P s u n)) (movies_data s) \<and>
   (sorted_wrt (<) (map movieId (movies_data s)) \<longrightarrow>
      sorted_wrt (<) (map movieId (fst (recommend_movies P s u n))))"
  by (simp add: recommend_movies_result sorted_wrt_filter_map)

theorem recommend_movies_catalog_order_witness:
  "sorted_wrt (<) (map movieId (movies_data demo)) \<and>
   top_movie_ids exact_numerics 3 (selection exact_numerics demo 1) = [5, 4] \<and>
   map movieId (fst (recommend_movies exact_numerics demo 1 3)) = [4, 5] \<and>
   subseq (fst (recommend_movies exact_numerics demo 1 3)) (movies_data demo)"
  using recommend_movies_catalog_order [of exact_numerics demo 1 3]
  by (simp add: demo_selection demo_top demo_result) (simp add: demo_def init_def sample_movies_def)

section \<open>The ranking of the similar users\<close>





lemma fit_transform_length [simp]: "length (fit_transform P X) = length X"
  by (simp add: fit_transform_def)










section \<open>Ranking by occurrence count\<close>

lemma sorted_take_closed:
  assumes "sorted (map f ys)" and "y \<in> set (take m ys)" and "x \<in> set ys" and "f x < f y"
  shows "x \<in> set (take m ys)"
proof -
  from assms(2) obtain j where j: "j < length ys" "j < m" "ys ! j = y"
    by (auto simp: in_set_conv_nth)
  from assms(3) obtain i where i: "i < length ys" "ys ! i = x"
    by (auto simp: in_set_conv_nth)
  have "i < m"
  proof (rule ccontr)
    assume "\<not> i < m"
    with j have "j \<le> i" by simp
    with assms(1) i(1) have "map f ys ! j \<le> map f ys ! i"
      by (simp add: sorted_iff_nth_mono del: nth_map)
    with i j assms(4) show False by simp
  qed
  with i show ?thesis by (auto simp: in_set_conv_nth)
qed

lemma value_counts_sorted:
  "sorted (map (\<lambda>vc. (- int (snd vc), counts_tie P xs (fst vc))) (value_counts P xs))"
  by (simp add: value_counts_def)

lemma value_counts_entries:
  "set (value_counts P xs) = (\<lambda>v. (v, count_list xs v)) ` set xs"
  by (simp add: value_counts_def uniques_def)

lemma top_movie_ids_monotone:
  assumes "count_list xs b < count_list xs a" and "b \<in> set (top_movie_ids P n xs)"
  shows "a \<in> set (top_movie_ids P n xs)"
proof -
  let ?key = "\<lambda>vc. (- int (snd vc), counts_tie P xs (fst vc))"
  let ?m = "if 0 \<le> n then nat n else length (value_counts P xs) - nat (- n)"
  have top: "top_movie_ids P n xs = map fst (take ?m (value_counts P xs))"
    by (simp add: top_movie_ids_def head_def)
  from assms(2) obtain c where bc: "(b, c) \<in> set (take ?m (value_counts P xs))"
    unfolding top by force
  then have "(b, c) \<in> set (value_counts P xs)"
    by (rule in_set_takeD)
  then have c: "c = count_list xs b"
    by (auto simp: value_counts_entries)
  from assms(1) have "a \<in> set xs"
    by (metis count_list_0_iff not_less_zero)
  then have a: "(a, count_list xs a) \<in> set (value_counts P xs)"
    by (simp add: value_counts_entries)
  have "?key (a, count_list xs a) < ?key (b, c)"
    using assms(1) c by (simp add: less_prod_def)
  from sorted_take_closed [OF value_counts_sorted bc a this]
  show ?thesis unfolding top by force
qed

lemma count_list_concat:
  "count_list (concat xss) a = sum_list (map (\<lambda>xs. count_list xs a) xss)"
  by (induction xss) simp_all

lemma count_list_map_filter:
  "count_list (map f (filter Q xs)) a = length (filter (\<lambda>x. Q x \<and> f x = a) xs)"
  by (induction xs) simp_all

lemma distinct_key_filter:
  "distinct (map g xs) \<Longrightarrow>
   length (filter (\<lambda>x. g x = k \<and> Q x) xs) = (if \<exists>x \<in> set xs. g x = k \<and> Q x then 1 else 0)"
proof (induction xs)
  case Nil
  then show ?case by simp
next
  case (Cons x xs)
  then show ?case by (auto simp: image_iff filter_empty_conv)
qed

lemma sum_list_indicator:
  "sum_list (map (\<lambda>v. if C v then 1 else 0) us) = length (filter C us)"
  by (induction us) simp_all

lemma count_candidates_supporters:
  assumes "distinct (map (\<lambda>r. (userId r, r_movieId r)) (ratings_data s))"
    and "a \<notin> user_rated_movies s u"
  shows "count_list (collect_candidates s (user_rated_movies s u)
                      (fst (find_similar_users P s u 3))) a = supporters P s u a"
proof -
  let ?rated = "user_rated_movies s u"
  have one: "count_list (similar_user_ratings s ?rated v) a =
      (if \<exists>r \<in> set (ratings_data s). userId r = v \<and> r_movieId r = a \<and> rating r \<ge> 4
       then 1 else 0)" for v
  proof -
    have "count_list (similar_user_ratings s ?rated v) a =
        length (filter (\<lambda>r. (userId r, r_movieId r) = (v, a) \<and> rating r \<ge> 4) (ratings_data s))"
      using assms(2)
      by (auto simp: similar_user_ratings_def count_list_map_filter intro!: arg_cong [where f = length] filter_cong)
    also have "\<dots> = (if \<exists>r \<in> set (ratings_data s). (userId r, r_movieId r) = (v, a) \<and> rating r \<ge> 4
       then 1 else 0)"
      by (rule distinct_key_filter [OF assms(1)])
    finally show ?thesis by simp
  qed
  show ?thesis
    by (simp add: collect_candidates_def count_list_concat comp_def one sum_list_indicator
          supporters_def)
qed

text \<open>
  The run on the store \<open>rerated\<close>: the Rating Matrix is that of \<open>demo\<close>, since a cell
  holds the mean of its ratings, and so are the similar users 4, 3 and 2. Movie 4 now
  occurs three times among the candidates, all from user 2, and movie 5 twice, from
  users 3 and 2.
\<close>

lemma rerated_pivot: "pivot_table (ratings_data rerated) = pivot_table (ratings_data demo)"
  by (simp add: rerated_def demo_def pivot_table_def Let_def pivot_cell_def cell_ratings_def mean_def)

lemma rerated_similar_users:
  "fst (find_similar_users exact_numerics rerated 1 3) = [4, 3, 2]"
proof -
  have len: "\<not> length (ratings_data rerated) < 5"
    by (simp add: rerated_def demo_def)
  show ?thesis
    by (simp add: find_similar_users_def len prepare_normalized_matrix rerated_pivot demo_pivot
          pivot_empty_def matrix_size_def demo_normalized get_loc_def demo_similarities
          demo_argsort py_slice_def py_bound_def Let_def)
qed

lemma rerated_rated: "user_rated_movies rerated 1 = {1, 2}"
  by (simp add: user_rated_movies_def rerated_def demo_def)

lemma rerated_candidates:
  "collect_candidates rerated {1, 2} [4, 3, 2] = [5, 4, 5, 4, 4]"
  by (simp add: collect_candidates_def similar_user_ratings_def rerated_def demo_def)

lemma rerated_selection: "selection exact_numerics rerated 1 = [5, 4, 5, 4, 4]"
  by (simp add: selection_def rerated_rated rerated_similar_users rerated_candidates)

lemma rerated_top: "top_movie_ids exact_numerics 1 [5, 4, 5, 4, 4] = [4]"
  by (simp add: top_movie_ids_def value_counts_def uniques_def head_def exact_numerics_def)

lemma rerated_supporters:
  "supporters exact_numerics rerated 1 4 = 1" "supporters exact_numerics rerated 1 5 = 2"
  by (simp_all add: supporters_def rerated_similar_users) (simp_all add: rerated_def demo_def)

text \<open>
  C6, as stated, fails on \<open>rerated\<close> with \<open>n_recommendations = 1\<close>: movie 5 is rated at
  least 4 by two similar users and movie 4 by one, yet movie 4 is selected and movie 5
  is not.
\<close>

theorem monotone_in_supporters_counterexample:
  "\<not> monotone_in_supporters exact_numerics rerated 1 1"
proof
  assume "monotone_in_supporters exact_numerics rerated 1 1"
  then have "supporters exact_numerics rerated 1 4 < supporters exact_numerics rerated 1 5 \<longrightarrow>
      (4::int) \<in> set [4] \<longrightarrow> (5::int) \<in> set [4]"
    by (simp add: monotone_in_supporters_def rerated_rated rerated_similar_users
          rerated_candidates rerated_selection rerated_top)
  then show False by (simp add: rerated_supporters)
qed

text \<open>
  C6, amended. The selection is monotonic in the occurrence count, the number of rows
  with a rating of at least 4 that the similar users hold for a movie: if movie \<open>a\<close>
  occurs strictly more often among the candidates than movie \<open>b\<close>, then \<open>a\<close> is selected
  whenever \<open>b\<close> is. In a store with no two rows for the same (userId, movieId) pair the
  occurrence count is the number of similar users, and the selection is monotonic in
  that number as the specification words it.
\<close>

theorem selection_monotone_in_count:
  "(count_list (selection P s u) b < count_list (selection P s u) a \<longrightarrow>
      b \<in> set (top_movie_ids P n (selection P s u)) \<longrightarrow>
      a \<in> set (top_movie_ids P n (selection P s u))) \<and>
   (distinct (map (\<lambda>r. (userId r, r_movieId r)) (ratings_data s)) \<longrightarrow>
      monotone_in_supporters P s u n)"
proof (intro conjI impI)
  assume "count_list (selection P s u) b < count_list (selection P s u) a"
    and "b \<in> set (top_movie_ids P n (selection P s u))"
  then show "a \<in> set (top_movie_ids P n (selection P s u))"
    by (rule top_movie_ids_monotone)
next
  assume d: "distinct (map (\<lambda>r. (userId r, r_movieId r)) (ratings_data s))"
  let ?c = "collect_candidates s (user_rated_movies s u) (fst (find_similar_users P s u 3))"
  have "a' \<in> set (top_movie_ids P n (selection P s u))"
    if a: "a' \<in> set ?c" and b: "b' \<in> set ?c"
      and less: "supporters P s u b' < supporters P s u a'"
      and top: "b' \<in> set (top_movie_ids P n (selection P s u))" for a' b'
  proof -
    from a have sel: "selection P s u = ?c"
      by (auto simp: selection_def Let_def)
    from a b collect_candidates_unrated [of s "user_rated_movies s u"]
    have "a' \<notin> user_rated_movies s u" "b' \<notin> user_rated_movies s u"
      by blast+
    then have "count_list ?c a' = supporters P s u a'" "count_list ?c b' = supporters P s u b'"
      by (simp_all add: count_candidates_supporters [OF d])
    with less have "count_list (selection P s u) b' < count_list (selection P s u) a'"
      by (simp add: sel)
    then show ?thesis using top by (rule top_movie_ids_monotone)
  qed
  then show "monotone_in_supporters P s u n"
    by (simp add: monotone_in_supporters_def Let_def)
qed

lemma demo_distinct:
  "distinct (map (\<lambda>r. (userId r, r_movieId r)) (ratings_data demo))"
  by (simp add: demo_def)

lemma demo_supporters:
  "supporters exact_numerics demo 1 4 = 1" "supporters exact_numerics demo 1 5 = 2"
  by (simp_all add: supporters_def demo_similar_users) (simp_all add: demo_def)

theorem selection_monotone_in_count_witness:
  "count_list (selection exact_numerics demo 1) 4 < count_list (selection exact_numerics demo 1) 5 \<and>
   4 \<in> set (top_movie_ids exact_numerics 3 (selection exact_numerics demo 1)) \<and>
   5 \<in> set (top_movie_ids exact_numerics 3 (selection exact_numerics demo 1)) \<and>
   distinct (map (\<lambda>r. (userId r, r_movieId r)) (ratings_data demo)) \<and>
   supporters exact_numerics demo 1 4 < supporters exact_numerics demo 1 5 \<and>
   monotone_in_supporters exact_numerics demo 1 3"
  using selection_monotone_in_count [of exact_numerics demo 1 4 5 3] demo_distinct
  by (simp add: demo_selection demo_top demo_supporters)

end
